theory Spec2Isabelle
  imports Complex_Main "HOL-Library.Word"
begin

section \<open>JavaScript values used by script.js\<close>

text \<open>
  A JavaScript string is a sequence of UTF-16 code units; every literal of the script lies
  in the Basic Multilingual Plane, so a code unit is a code point.  ASCII literals are
  written with \<open>ascii\<close>, the Persian ones as lists of code units.

  A JavaScript number is modelled as a real number: the script only adds, subtracts,
  compares, divides and floors timestamps and durations.  \<open>NaN\<close> and the infinities are
  outside the model.  \<open>Date.now()\<close> is an integer number of milliseconds.
\<close>

type_synonym jsstring = "nat list"

definition ascii :: "string \<Rightarrow> jsstring" where
  "ascii s = map of_char s"

datatype js_error = TypeError

text \<open>An optional string field is absent (\<open>undefined\<close>/\<open>null\<close>) or a string; the empty
  string is falsy as well.\<close>

definition truthy :: "jsstring option \<Rightarrow> bool" where
  "truthy v = (case v of None \<Rightarrow> False | Some s \<Rightarrow> s \<noteq> [])"

text \<open>\<open>v || d\<close> for an optional string \<open>v\<close> and a string \<open>d\<close>.\<close>

definition orElse :: "jsstring option \<Rightarrow> jsstring \<Rightarrow> jsstring" where
  "orElse v d = (case v of None \<Rightarrow> d | Some s \<Rightarrow> if s = [] then d else s)"

text \<open>The code units matched by the regular expression \<open>\s\<close>.\<close>

definition isWhiteSpace :: "nat \<Rightarrow> bool" where
  "isWhiteSpace c \<longleftrightarrow>
     c \<in> {9, 10, 11, 12, 13, 32, 160, 5760, 8232, 8233, 8239, 8287, 12288, 65279}
     \<or> (8192 \<le> c \<and> c \<le> 8202)"

text \<open>\<open>s.replace(/\s/g, '+')\<close>\<close>

definition replaceSpaces :: "jsstring \<Rightarrow> jsstring" where
  "replaceSpaces s = map (\<lambda>c. if isWhiteSpace c then 43 else c) s"

text \<open>Decimal rendering of an integer-valued number (below \<open>10^21\<close> in magnitude, where
  \<open>Number.prototype.toString\<close> does not switch to exponent notation).\<close>

fun showNat :: "nat \<Rightarrow> jsstring" where
  "showNat n = (if n < 10 then [48 + n] else showNat (n div 10) @ [48 + n mod 10])"

declare showNat.simps [simp del]

definition showInt :: "int \<Rightarrow> jsstring" where
  "showInt i = (if i < 0 then 45 # showNat (nat (- i)) else showNat (nat i))"

text \<open>\<open>s.padStart(2, '0')\<close>\<close>

definition padStart2 :: "jsstring \<Rightarrow> jsstring" where
  "padStart2 s = replicate (2 - length s) 48 @ s"

text \<open>The remainder operator \<open>%\<close>: the result has the sign of the dividend.\<close>

definition js_trunc :: "real \<Rightarrow> int" where
  "js_trunc x = (if x < 0 then \<lceil>x\<rceil> else \<lfloor>x\<rfloor>)"

definition js_rem :: "real \<Rightarrow> real \<Rightarrow> real" where
  "js_rem x y = x - y * of_int (js_trunc (x / y))"

definition secondsOf :: "int \<Rightarrow> real" where
  "secondsOf ms = of_int ms / 1000"

section \<open>The now-playing payload\<close>

record song_info =
  title :: "jsstring option"
  artist :: "jsstring option"
  art :: "jsstring option"

record track =
  played_at :: real
  duration :: real
  song :: "song_info option"

record mount =
  url :: "jsstring option"
  is_default :: bool

record station_info =
  name :: "jsstring option"
  shortcode :: jsstring
  listen_url :: "jsstring option"
  mounts :: "mount list option"

record now_playing_context =
  station :: "station_info option"
  now_playing :: "track option"
  song_history :: "track list option"
  playing_next :: "track option"

section \<open>Constants of the script\<close>

definition TIME_LAG_BUFFER :: real where
  "TIME_LAG_BUFFER = 40"

definition STATION_NAME_MAP :: "(jsstring \<times> jsstring) list" where
  "STATION_NAME_MAP =
    [(ascii ''Radio Beeptunes'',
        [1585, 1575, 1583, 1740, 1608, 32, 1576, 1740, 1662, 32, 1578, 1608, 1606, 1586]),
     (ascii ''Rangarang'', [1585, 1606, 1711, 1575, 1585, 1606, 1711]),
     (ascii ''Aramesh'', [1570, 1585, 1575, 1605, 1588]),
     (ascii ''Sarkhoshan-e mast'',
        [1587, 1585, 1582, 1608, 1588, 1575, 1606, 32, 1605, 1587, 1578]),
     (ascii ''Owj'', [1575, 1608, 1580]),
     (ascii ''Sarzamin'', [1587, 1585, 1586, 1605, 1740, 1606]),
     (ascii ''Avang'', [1570, 1608, 1606, 1711]),
     (ascii ''Harmony'', [1607, 1575, 1585, 1605, 1608, 1606, 1740])]"

text \<open>\<open>STATION_NAME_MAP[n] || n\<close>; the keys inherited from \<open>Object.prototype\<close> are not
  modelled.\<close>

definition displayName :: "jsstring \<Rightarrow> jsstring" where
  "displayName n = (case map_of STATION_NAME_MAP n of Some p \<Rightarrow> p | None \<Rightarrow> n)"

definition placeholdUrl :: jsstring where
  "placeholdUrl = ascii ''https://placehold.co/512/EEE/31343C?font=Vazirmatn&text=''"

text \<open>The literal for "radio" used in the placeholder artwork address.\<close>

definition radioText :: jsstring where
  "radioText = [1585, 1575, 1583, 1740, 1608]"

section \<open>formatTime\<close>

definition formatTime :: "real \<Rightarrow> jsstring" where
  "formatTime totalSeconds =
    (let minutes = \<lfloor>totalSeconds / 60\<rfloor>;
         seconds = \<lfloor>js_rem totalSeconds 60\<rfloor>
     in showInt minutes @ [58] @ padStart2 (showInt seconds))"

section \<open>Track selection of updateNowPlayingInfo\<close>

text \<open>\<open>data.song_history && data.song_history.length > 0 ? data.song_history[0] : null\<close>\<close>

definition lastHistory :: "now_playing_context \<Rightarrow> track option" where
  "lastHistory data =
    (case song_history data of
       None \<Rightarrow> None
     | Some [] \<Rightarrow> None
     | Some (h # _) \<Rightarrow> Some h)"

text \<open>
  Lines 396 to 423 of \<open>updateNowPlayingInfo\<close>, for a context whose \<open>now_playing\<close> is the
  track \<open>np\<close> (the guard of line 384 has passed).  The result is the final value of
  \<open>trackData\<close> and whether the timing mismatch was written to the console.
\<close>

definition selectTrack :: "now_playing_context \<Rightarrow> track \<Rightarrow> real \<Rightarrow> track \<times> bool" where
  "selectTrack data np currentTimestampSec =
    (let nowStartTime = played_at np + TIME_LAG_BUFFER;
         nowEndTime = nowStartTime + duration np
     in if currentTimestampSec < nowStartTime then
          (case lastHistory data of
             Some h \<Rightarrow>
               (let historyStartTime = played_at h + TIME_LAG_BUFFER;
                    historyEndTime = historyStartTime + duration h
                in if currentTimestampSec > historyEndTime then (np, False) else (h, False))
           | None \<Rightarrow> (np, True))
        else if currentTimestampSec \<ge> nowEndTime then
          (case playing_next data of
             Some nxt \<Rightarrow> (nxt, False)
           | None \<Rightarrow> (np, False))
        else (np, False))"

section \<open>Session state\<close>

text \<open>
  The globals and the parts of the page and of the browser that the modelled functions
  read or write.  Text fields hold \<open>textContent\<close>; \<open>progressBarWidth\<close> is the number
  \<open>p\<close> of the style \<open>width: p%\<close>.  \<open>activeIntervals\<close> are the handles of the
  running \<open>setInterval\<close> timers and \<open>nextHandle\<close> the handle the browser hands out
  next (handles are positive, hence truthy).  \<open>mediaSession\<close> is \<open>None\<close> when
  \<open>navigator\<close> has no \<open>mediaSession\<close>.
\<close>

record artwork =
  src :: jsstring
  sizes :: jsstring
  mime_type :: jsstring

record media_metadata =
  md_title :: jsstring
  md_artist :: jsstring
  md_album :: jsstring
  md_artwork :: "artwork list"

record media_session =
  metadata :: "media_metadata option"
  playHandler :: bool
  pauseHandler :: bool
  seektoHandler :: bool
  previoustrackHandler :: bool
  nexttrackHandler :: bool

record player =
  songTitle :: jsstring
  artistName :: jsstring
  stationNameEl :: jsstring
  albumArt_src :: jsstring
  elapsedTimeEl :: jsstring
  durationTimeEl :: jsstring
  progressBarWidth :: real
  intervalId :: "nat option"
  currentDuration :: real
  currentStartTime :: real
  peakSamplingIntervalId :: "nat option"
  waveformHistory :: "real list"
  activeIntervals :: "nat set"
  nextHandle :: nat
  mediaSession :: "media_session option"
  consoleErrors :: "jsstring list"

definition clearInterval :: "nat \<Rightarrow> player \<Rightarrow> player" where
  "clearInterval h st = st\<lparr>activeIntervals := activeIntervals st - {h}\<rparr>"

text \<open>\<open>setInterval\<close> returns the new handle and the state in which it runs.\<close>

definition setInterval :: "player \<Rightarrow> nat \<times> player" where
  "setInterval st =
    (let h = nextHandle st
     in (h, st\<lparr>activeIntervals := insert h (activeIntervals st), nextHandle := Suc h\<rparr>))"

section \<open>Progress display and timer\<close>

text \<open>Lines 93 and 94 of \<open>updateProgress\<close>.\<close>

definition progressPercentage :: "real \<Rightarrow> real \<Rightarrow> real" where
  "progressPercentage currentTime dur = (min currentTime dur / dur) * 100"

definition updateProgress :: "real \<Rightarrow> player \<Rightarrow> player" where
  "updateProgress currentTime st =
    (let dur = currentDuration st
     in if dur > 0 then
          (let progressTime = min currentTime dur
           in st\<lparr>elapsedTimeEl := formatTime progressTime,
                 durationTimeEl := formatTime dur,
                 progressBarWidth := progressPercentage currentTime dur\<rparr>)
        else
          st\<lparr>elapsedTimeEl := ascii ''0:00'',
             durationTimeEl := ascii ''0:00'',
             progressBarWidth := 0\<rparr>)"

text \<open>\<open>Math.floor((Date.now() / 1000) - currentStartTime)\<close>\<close>

definition elapsedApiTime :: "int \<Rightarrow> player \<Rightarrow> int" where
  "elapsedApiTime now_ms st = \<lfloor>secondsOf now_ms - currentStartTime st\<rfloor>"

text \<open>\<open>now_ms\<close> is the value of \<open>Date.now()\<close> read on line 120.\<close>

definition startProgressTimer :: "real \<Rightarrow> real \<Rightarrow> int \<Rightarrow> player \<Rightarrow> player" where
  "startProgressTimer lagAdjustedStartTime dur now_ms st =
    (let st1 = (case intervalId st of Some h \<Rightarrow> clearInterval h st | None \<Rightarrow> st);
         st2 = st1\<lparr>currentStartTime := lagAdjustedStartTime, currentDuration := dur\<rparr>;
         st3 = updateProgress (of_int (elapsedApiTime now_ms st2)) st2;
         (h, st4) = setInterval st3
     in st4\<lparr>intervalId := Some h\<rparr>)"

text \<open>The callback of the one-second interval; the flag tells whether
  \<open>fetchNowPlayingInfo\<close> is called.\<close>

definition progressTick :: "int \<Rightarrow> player \<Rightarrow> player \<times> bool" where
  "progressTick now_ms st =
    (let e = elapsedApiTime now_ms st
     in (updateProgress (of_int e) st,
         of_int e \<ge> currentDuration st \<and> of_int e > currentDuration st + 5))"

definition stopProgressTimer :: "player \<Rightarrow> player" where
  "stopProgressTimer st =
    (case intervalId st of
       Some h \<Rightarrow> (clearInterval h st)\<lparr>intervalId := None\<rparr>
     | None \<Rightarrow> st)"

section \<open>Media session\<close>

definition clearMediaSession :: "player \<Rightarrow> player" where
  "clearMediaSession st =
    (case mediaSession st of
       None \<Rightarrow> st
     | Some m \<Rightarrow>
         st\<lparr>mediaSession := Some (m\<lparr>metadata := None, playHandler := False, pauseHandler := False\<rparr>)\<rparr>)"

text \<open>\<open>a || alt\<close> where \<open>alt\<close> is an expression that may throw; it is evaluated only when
  \<open>a\<close> is falsy.\<close>

definition artOr :: "jsstring option \<Rightarrow> js_error + jsstring \<Rightarrow> js_error + jsstring" where
  "artOr a alt = (case a of None \<Rightarrow> alt | Some x \<Rightarrow> if x = [] then alt else Inr x)"

text \<open>The literals "unknown title" and "Radio Beeptunes" of \<open>updateMediaSession\<close>.\<close>

definition unknownTitleText :: jsstring where
  "unknownTitleText = [1593, 1606, 1608, 1575, 1606, 32, 1606, 1575, 1605, 1588, 1582, 1589]"

definition radioBeeptunesText :: jsstring where
  "radioBeeptunesText =
     [1585, 1575, 1583, 1740, 1608, 32, 1576, 1740, 1662, 32, 1578, 1608, 1606, 1586]"

text \<open>Line 305: \<open>station.name.replace\<close> throws when \<open>station.name\<close> is undefined.\<close>

definition mediaArtworkUrl :: "song_info \<Rightarrow> station_info \<Rightarrow> js_error + jsstring" where
  "mediaArtworkUrl sg stn =
    artOr (art sg)
      (case name stn of
         None \<Rightarrow> Inl TypeError
       | Some n \<Rightarrow>
           Inr (placeholdUrl @ (let r = replaceSpaces n in if r = [] then radioText else r)))"

definition updateMediaSession :: "song_info \<Rightarrow> station_info \<Rightarrow> player \<Rightarrow> js_error + player" where
  "updateMediaSession sg stn st =
    (case mediaSession st of
       None \<Rightarrow> Inr st
     | Some m \<Rightarrow>
         (case mediaArtworkUrl sg stn of
            Inl e \<Rightarrow> Inl e
          | Inr artworkUrl \<Rightarrow>
              Inr (st\<lparr>mediaSession := Some (m\<lparr>
                metadata := Some \<lparr>
                  md_title = orElse (title sg) unknownTitleText,
                  md_artist = orElse (artist sg) (case name stn of None \<Rightarrow> [] | Some n \<Rightarrow> n),
                  md_album = orElse (name stn) radioBeeptunesText,
                  md_artwork = [\<lparr>src = artworkUrl, sizes = ascii ''512x512'',
                                 mime_type = ascii ''image/jpeg''\<rparr>]\<rparr>,
                playHandler := True,
                pauseHandler := True,
                seektoHandler := False,
                previoustrackHandler := False,
                nexttrackHandler := False\<rparr>)\<rparr>)))"

section \<open>updateNowPlayingInfo\<close>

text \<open>The literals "information not available", "please select a station", "untitled" and
  "unknown artist".\<close>

definition noInfoText :: jsstring where
  "noInfoText =
     [1575, 1591, 1604, 1575, 1593, 1575, 1578, 32, 1583, 1585, 32, 1583, 1587, 1578, 1585,
      1587, 32, 1606, 1740, 1587, 1578]"

definition selectStationText :: jsstring where
  "selectStationText =
     [1604, 1591, 1601, 1575, 32, 1575, 1740, 1587, 1578, 1711, 1575, 1607, 32, 1585, 1575,
      32, 1575, 1606, 1578, 1582, 1575, 1576, 32, 1705, 1606, 1740, 1583]"

definition untitledText :: jsstring where
  "untitledText = [1576, 1583, 1608, 1606, 32, 1593, 1606, 1608, 1575, 1606]"

definition unknownArtistText :: jsstring where
  "unknownArtistText =
     [1607, 1606, 1585, 1605, 1606, 1583, 32, 1606, 1575, 1588, 1606, 1575, 1587]"

definition timingMismatchMessage :: jsstring where
  "timingMismatchMessage =
     ascii ''API timing mismatch: current time is before now_playing start, but song_history is empty. Falling back to now_playing.''"

text \<open>\<open>data?.station?.name\<close>\<close>

definition stationNameOf :: "now_playing_context option \<Rightarrow> jsstring option" where
  "stationNameOf data =
    (case data of
       None \<Rightarrow> None
     | Some d \<Rightarrow> (case station d of None \<Rightarrow> None | Some s \<Rightarrow> name s))"

text \<open>Lines 385 to 392: the branch taken when the guard of line 384 holds.\<close>

definition fallbackDisplay :: "now_playing_context option \<Rightarrow> player \<Rightarrow> player" where
  "fallbackDisplay data st =
    clearMediaSession (stopProgressTimer (st\<lparr>
      songTitle := noInfoText,
      artistName := selectStationText,
      stationNameEl := orElse (stationNameOf data) (ascii ''Beeptunes Radio''),
      albumArt_src := placeholdUrl @ replaceSpaces (orElse (stationNameOf data) radioText)\<rparr>))"

text \<open>
  Lines 427 to 443, for the selected track and the station of the context.  \<open>song.title\<close>
  throws when the track has no \<open>song\<close>, and line 436 throws when the song has no artwork
  and the station no name; the state reached at a throw is not kept.  \<open>now_ms\<close> is the
  clock value read by \<open>startProgressTimer\<close>.
\<close>

definition showTrack :: "track \<Rightarrow> station_info \<Rightarrow> int \<Rightarrow> player \<Rightarrow> js_error + player" where
  "showTrack trackData stn now_ms st =
    (let playedAt = played_at trackData + TIME_LAG_BUFFER;
         dur = duration trackData
     in case song trackData of
          None \<Rightarrow> Inl TypeError
        | Some sg \<Rightarrow>
            (case artOr (art sg)
                    (case name stn of
                       None \<Rightarrow> Inl TypeError
                     | Some n \<Rightarrow> Inr (placeholdUrl @ replaceSpaces n)) of
               Inl e \<Rightarrow> Inl e
             | Inr artSrc \<Rightarrow>
                 (case updateMediaSession sg stn (st\<lparr>
                         songTitle := orElse (title sg) untitledText,
                         artistName := orElse (artist sg) unknownArtistText,
                         albumArt_src := artSrc,
                         stationNameEl := (case name stn of None \<Rightarrow> [] | Some n \<Rightarrow> displayName n)\<rparr>) of
                    Inl e \<Rightarrow> Inl e
                  | Inr st' \<Rightarrow> Inr (startProgressTimer playedAt dur now_ms st'))))"

text \<open>
  \<open>sel_ms\<close> is the value of \<open>Date.now()\<close> read on line 395, \<open>timer_ms\<close> the one read
  afterwards on line 120.
\<close>

definition updateNowPlayingInfo ::
    "now_playing_context option \<Rightarrow> int \<Rightarrow> int \<Rightarrow> player \<Rightarrow> js_error + player" where
  "updateNowPlayingInfo data sel_ms timer_ms st =
    (case data of
       None \<Rightarrow> Inr (fallbackDisplay data st)
     | Some d \<Rightarrow>
         (case now_playing d of
            None \<Rightarrow> Inr (fallbackDisplay data st)
          | Some np \<Rightarrow>
              (case station d of
                 None \<Rightarrow> Inr (fallbackDisplay data st)
               | Some stn \<Rightarrow>
                   (let (trackData, mismatch) = selectTrack d np (secondsOf sel_ms);
                        st1 = (if mismatch
                               then st\<lparr>consoleErrors := consoleErrors st @ [timingMismatchMessage]\<rparr>
                               else st)
                    in showTrack trackData stn timer_ms st1))))"

section \<open>extractStations\<close>

record station_descriptor =
  sd_name :: "jsstring option"
  sd_originalName :: "jsstring option"
  sd_shortcode :: jsstring
  sd_url :: "jsstring option"

text \<open>\<open>station.mounts.find(m => m.is_default)?.url\<close> for a present \<open>mounts\<close> array.\<close>

definition defaultMountUrl :: "mount list \<Rightarrow> jsstring option" where
  "defaultMountUrl ms = (case find is_default ms of None \<Rightarrow> None | Some m \<Rightarrow> url m)"

text \<open>The callback of \<open>map\<close>.  Reading \<open>stationData.station.name\<close> throws when the entry
  has no \<open>station\<close>, and \<open>mounts.find\<close> throws when \<open>mounts\<close> is undefined.\<close>

definition toDescriptor :: "now_playing_context \<Rightarrow> js_error + station_descriptor" where
  "toDescriptor stationData =
    (case station stationData of
       None \<Rightarrow> Inl TypeError
     | Some s \<Rightarrow>
         (let originalName = name s;
              persianName = map_option displayName originalName
          in if truthy (listen_url s) then
               Inr \<lparr>sd_name = persianName, sd_originalName = originalName,
                    sd_shortcode = shortcode s, sd_url = listen_url s\<rparr>
             else
               (case mounts s of
                  None \<Rightarrow> Inl TypeError
                | Some ms \<Rightarrow>
                    Inr \<lparr>sd_name = persianName, sd_originalName = originalName,
                         sd_shortcode = shortcode s, sd_url = defaultMountUrl ms\<rparr>)))"

fun mapDescriptors :: "now_playing_context list \<Rightarrow> js_error + station_descriptor list" where
  "mapDescriptors [] = Inr []"
| "mapDescriptors (d # ds) =
    (case toDescriptor d of
       Inl e \<Rightarrow> Inl e
     | Inr x \<Rightarrow> (case mapDescriptors ds of Inl e \<Rightarrow> Inl e | Inr xs \<Rightarrow> Inr (x # xs)))"

definition extractStations :: "now_playing_context list \<Rightarrow> js_error + station_descriptor list" where
  "extractStations allStationsData =
    (case mapDescriptors allStationsData of
       Inl e \<Rightarrow> Inl e
     | Inr xs \<Rightarrow> Inr (filter (\<lambda>s. truthy (sd_url s)) xs))"

subsection \<open>The specification's wording\<close>

text \<open>The stream URL as the specification words it: the station's \<open>listen_url\<close> when there is
  one, otherwise the URL of the mount entry flagged \<open>is_default\<close>, otherwise none.\<close>

definition spec_streamUrl :: "station_info \<Rightarrow> jsstring option" where
  "spec_streamUrl s =
    (if truthy (listen_url s) then listen_url s
     else (case mounts s of
             None \<Rightarrow> None
           | Some ms \<Rightarrow>
               (case find is_default ms of
                  None \<Rightarrow> None
                | Some m \<Rightarrow> if truthy (url m) then url m else None)))"

text \<open>The selectable set as the specification words it: the stations with a resolvable URL,
  in payload order.\<close>

definition spec_selectable :: "now_playing_context list \<Rightarrow> station_descriptor list" where
  "spec_selectable allStationsData =
    List.map_filter
      (\<lambda>d. case station d of
             None \<Rightarrow> None
           | Some s \<Rightarrow>
               if truthy (spec_streamUrl s)
               then Some \<lparr>sd_name = map_option displayName (name s), sd_originalName = name s,
                          sd_shortcode = shortcode s, sd_url = spec_streamUrl s\<rparr>
               else None)
      allStationsData"

text \<open>An entry on which the callback of \<open>map\<close> does not throw.\<close>

definition wellFormedEntry :: "now_playing_context \<Rightarrow> bool" where
  "wellFormedEntry d =
    (case station d of
       None \<Rightarrow> False
     | Some s \<Rightarrow> truthy (listen_url s) \<or> mounts s \<noteq> None)"

section \<open>Waveform sampling\<close>

text \<open>The canvas element is not part of the script; its integer size is a parameter.\<close>

record canvas =
  VIS_W :: nat
  VIS_H :: nat

definition BAR_WIDTH :: nat where
  "BAR_WIDTH = 2"

definition BAR_SPACING :: nat where
  "BAR_SPACING = 1"

definition STEP :: nat where
  "STEP = BAR_WIDTH + BAR_SPACING"

definition TOTAL_BARS :: "canvas \<Rightarrow> nat" where
  "TOTAL_BARS cv = VIS_W cv div STEP"

text \<open>
  What a sampling tick reads from outside: \<open>analyserData\<close> is \<open>None\<close> while \<open>analyser\<close> or
  \<open>dataArray\<close> is still null (both are set together in \<open>setupAudioContextAndAnalyser\<close>),
  otherwise the bytes that \<open>getByteTimeDomainData\<close> stores in \<open>dataArray\<close>.
\<close>

record sample_env =
  analyserData :: "8 word list option"
  isPlaying :: bool
  suspended :: bool

definition stopPeakSampling :: "player \<Rightarrow> player" where
  "stopPeakSampling st =
    (case peakSamplingIntervalId st of
       Some h \<Rightarrow> (clearInterval h st)\<lparr>peakSamplingIntervalId := None\<rparr>
     | None \<Rightarrow> st)"

definition startPeakSampling :: "canvas \<Rightarrow> player \<Rightarrow> player" where
  "startPeakSampling cv st =
    (let st1 = (case peakSamplingIntervalId st of Some h \<Rightarrow> clearInterval h st | None \<Rightarrow> st);
         st2 = st1\<lparr>waveformHistory := replicate (TOTAL_BARS cv) 0\<rparr>;
         (h, st3) = setInterval st2
     in st3\<lparr>peakSamplingIntervalId := Some h\<rparr>)"

text \<open>The loop of lines 190 to 196.\<close>

definition maxAmplitude :: "8 word list \<Rightarrow> int" where
  "maxAmplitude dataArray =
    fold (\<lambda>b m. let amplitudeSample = \<bar>int (unat b) - 128\<bar>
                 in if amplitudeSample > m then amplitudeSample else m) dataArray 0"

text \<open>The callback of the sampling interval.\<close>

definition peakSamplingTick :: "canvas \<Rightarrow> sample_env \<Rightarrow> player \<Rightarrow> player" where
  "peakSamplingTick cv env st =
    (case analyserData env of
       None \<Rightarrow> stopPeakSampling st
     | Some dataArray \<Rightarrow>
         if \<not> isPlaying env \<or> suspended env then stopPeakSampling st
         else
           (let normalizedAmplitude = real_of_int (maxAmplitude dataArray) / 128;
                halfBarHeight = normalizedAmplitude * (real (VIS_H cv) * 0.45);
                hist = waveformHistory st;
                shifted = (if length hist \<ge> TOTAL_BARS cv then tl hist else hist)
            in st\<lparr>waveformHistory := shifted @ [halfBarHeight]\<rparr>))"

text \<open>Successive ticks; the callback runs only while its interval is set.\<close>

fun runTicks :: "canvas \<Rightarrow> sample_env list \<Rightarrow> player \<Rightarrow> player" where
  "runTicks cv [] st = st"
| "runTicks cv (env # envs) st =
    (case peakSamplingIntervalId st of
       None \<Rightarrow> st
     | Some h \<Rightarrow> runTicks cv envs (peakSamplingTick cv env st))"

section \<open>Example data\<close>

text \<open>Concrete payloads and states at which the theorems below are evaluated.\<close>

definition emptySession :: media_session where
  "emptySession = \<lparr>metadata = None, playHandler = False, pauseHandler = False,
        seektoHandler = False, previoustrackHandler = False, nexttrackHandler = False\<rparr>"

definition examplePlayer :: player where
  "examplePlayer =
    \<lparr>songTitle = [], artistName = [], stationNameEl = [], albumArt_src = [],
     elapsedTimeEl = ascii ''0:00'', durationTimeEl = ascii ''0:00'', progressBarWidth = 0,
     intervalId = Some 1, currentDuration = 0, currentStartTime = 0,
     peakSamplingIntervalId = None, waveformHistory = [],
     activeIntervals = {1, 2}, nextHandle = 3,
     mediaSession = Some emptySession,
     consoleErrors = []\<rparr>"

definition exampleSong :: "jsstring \<Rightarrow> song_info" where
  "exampleSong t = \<lparr>title = Some t, artist = Some (ascii ''Artist''), art = None\<rparr>"

definition exampleStation :: station_info where
  "exampleStation = \<lparr>name = Some (ascii ''Owj''), shortcode = ascii ''owj'',
      listen_url = Some (ascii ''https://radio.example/owj''), mounts = Some []\<rparr>"

definition exampleNow :: track where
  "exampleNow = \<lparr>played_at = 1700000000, duration = 180, song = Some (exampleSong (ascii ''Now''))\<rparr>"

definition examplePrevious :: track where
  "examplePrevious = \<lparr>played_at = 1699999800, duration = 200, song = Some (exampleSong (ascii ''Previous''))\<rparr>"

definition exampleNext :: track where
  "exampleNext = \<lparr>played_at = 1700000180, duration = 240, song = Some (exampleSong (ascii ''Next''))\<rparr>"

definition exampleContext :: now_playing_context where
  "exampleContext = \<lparr>station = Some exampleStation, now_playing = Some exampleNow,
      song_history = Some [examplePrevious], playing_next = Some exampleNext\<rparr>"

definition negativeDurationNow :: track where
  "negativeDurationNow =
     \<lparr>played_at = 1700000000, duration = - 100, song = Some (exampleSong (ascii ''Now''))\<rparr>"

definition negativeDurationContext :: now_playing_context where
  "negativeDurationContext = \<lparr>station = Some exampleStation, now_playing = Some negativeDurationNow,
      song_history = Some [], playing_next = Some exampleNext\<rparr>"

definition exampleCanvas :: canvas where
  "exampleCanvas = \<lparr>VIS_W = 7, VIS_H = 100\<rparr>"

definition narrowCanvas :: canvas where
  "narrowCanvas = \<lparr>VIS_W = 2, VIS_H = 100\<rparr>"

definition exampleEnv :: sample_env where
  "exampleEnv = \<lparr>analyserData = Some [128, 192, 64, 130], isPlaying = True, suspended = False\<rparr>"

definition stationOnlyContext :: now_playing_context where
  "stationOnlyContext = \<lparr>station = Some exampleStation, now_playing = None,
      song_history = None, playing_next = None\<rparr>"

definition overlapPrevious :: track where
  "overlapPrevious =
     \<lparr>played_at = 1699999810, duration = 200, song = Some (exampleSong (ascii ''Previous''))\<rparr>"

definition overlapContext :: now_playing_context where
  "overlapContext = \<lparr>station = Some exampleStation, now_playing = Some exampleNow,
      song_history = Some [overlapPrevious], playing_next = None\<rparr>"

definition exampleShown :: player where
  "exampleShown =
    \<lparr>songTitle = ascii ''Now'', artistName = ascii ''Artist'',
     stationNameEl = [1575, 1608, 1580],
     albumArt_src = placeholdUrl @ ascii ''Owj'',
     elapsedTimeEl = ascii ''0:10'', durationTimeEl = ascii ''3:00'',
     progressBarWidth = 50 / 9,
     intervalId = Some 3, currentDuration = 180, currentStartTime = 1700000040,
     peakSamplingIntervalId = None, waveformHistory = [],
     activeIntervals = {2, 3}, nextHandle = 4,
     mediaSession = Some \<lparr>
       metadata = Some \<lparr>md_title = ascii ''Now'', md_artist = ascii ''Artist'',
         md_album = ascii ''Owj'',
         md_artwork = [\<lparr>src = placeholdUrl @ ascii ''Owj'', sizes = ascii ''512x512'',
                        mime_type = ascii ''image/jpeg''\<rparr>]\<rparr>,
       playHandler = True, pauseHandler = True, seektoHandler = False,
       previoustrackHandler = False, nexttrackHandler = False\<rparr>,
     consoleErrors = []\<rparr>"

definition mountStation :: station_info where
  "mountStation = \<lparr>name = Some (ascii ''Harmony''), shortcode = ascii ''harmony'',
      listen_url = None,
      mounts = Some [\<lparr>url = Some (ascii ''https://radio.example/a.mp3''), is_default = False\<rparr>,
                     \<lparr>url = Some (ascii ''https://radio.example/b.mp3''), is_default = True\<rparr>]\<rparr>"

definition silentStation :: station_info where
  "silentStation = \<lparr>name = Some (ascii ''Silent''), shortcode = ascii ''silent'',
      listen_url = Some [], mounts = Some []\<rparr>"

definition brokenStation :: station_info where
  "brokenStation = \<lparr>name = Some (ascii ''Broken''), shortcode = ascii ''broken'',
      listen_url = None, mounts = None\<rparr>"

definition contextOf :: "station_info \<Rightarrow> now_playing_context" where
  "contextOf s = \<lparr>station = Some s, now_playing = Some exampleNow, song_history = Some [],
      playing_next = None\<rparr>"

definition examplePayload :: "now_playing_context list" where
  "examplePayload = [exampleContext, contextOf mountStation, contextOf silentStation]"

definition brokenPayload :: "now_playing_context list" where
  "brokenPayload = [exampleContext, contextOf brokenStation]"

section \<open>Reaching the display code\<close>

text \<open>With \<open>now_playing\<close> and \<open>station\<close> present, \<open>updateNowPlayingInfo\<close> shows the track
  that \<open>selectTrack\<close> returns.\<close>

lemma updateNowPlayingInfo_present:
  assumes "now_playing d = Some np" and "station d = Some stn"
  shows "updateNowPlayingInfo (Some d) ms ms' st =
     showTrack (fst (selectTrack d np (secondsOf ms))) stn ms'
       (if snd (selectTrack d np (secondsOf ms))
        then st\<lparr>consoleErrors := consoleErrors st @ [timingMismatchMessage]\<rparr> else st)"
  using assms by (simp add: updateNowPlayingInfo_def split: prod.splits)

lemma showTrack_baseline:
  assumes "showTrack tr stn ms st = Inr st'"
  shows "currentStartTime st' = played_at tr + 40 \<and> currentDuration st' = duration tr"
  using assms
  by (auto simp add: showTrack_def startProgressTimer_def setInterval_def updateProgress_def
      TIME_LAG_BUFFER_def Let_def split: option.splits sum.splits prod.splits)

lemma showTrack_returns:
  assumes "song tr = Some sg" and "truthy (art sg) \<or> name stn \<noteq> None"
  shows "\<exists>st'. showTrack tr stn ms st = Inr st'"
  using assms
  by (auto simp add: showTrack_def updateMediaSession_def mediaArtworkUrl_def artOr_def
      truthy_def Let_def split: option.splits sum.splits)

lemma showTrack_elapsed:
  assumes "showTrack tr stn ms st = Inr st'"
  shows "elapsedApiTime ms st' = \<lfloor>secondsOf ms - (played_at tr + 40)\<rfloor>
       \<and> (0 < duration tr \<longrightarrow>
            elapsedTimeEl st' =
              formatTime (min (of_int \<lfloor>secondsOf ms - (played_at tr + 40)\<rfloor>) (duration tr)))"
  using assms
  by (auto simp add: showTrack_def startProgressTimer_def setInterval_def updateProgress_def
      elapsedApiTime_def TIME_LAG_BUFFER_def Let_def split: option.splits sum.splits prod.splits)

lemma formatTime_10: "formatTime 10 = ascii ''0:10''"
  by (simp add: formatTime_def js_rem_def js_trunc_def showInt_def showNat.simps padStart2_def
      ascii_def)

section \<open>Track selection\<close>

text \<open>
  C1.  When the clock lies in the lag-adjusted window of \<open>now_playing\<close>, that is
  \<open>played_at + 40 \<le> currentTime < played_at + 40 + duration\<close>, and the context has both
  \<open>now_playing\<close> and \<open>station\<close>, the final \<open>trackData\<close> is \<open>now_playing\<close> and
  \<open>updateNowPlayingInfo\<close> displays it.
\<close>

theorem now_playing_window_selects_now_playing:
  assumes "now_playing d = Some np" and "station d = Some stn"
    and "played_at np + 40 \<le> secondsOf ms"
    and "secondsOf ms < played_at np + 40 + duration np"
  shows "selectTrack d np (secondsOf ms) = (np, False) \<and>
         updateNowPlayingInfo (Some d) ms ms' st = showTrack np stn ms' st"
proof -
  have sel: "selectTrack d np (secondsOf ms) = (np, False)"
    using assms(3,4) by (simp add: selectTrack_def TIME_LAG_BUFFER_def)
  show ?thesis
    using sel updateNowPlayingInfo_present [OF assms(1,2), of ms ms' st] by simp
qed

theorem now_playing_window_witness:
  "now_playing exampleContext = Some exampleNow \<and> station exampleContext = Some exampleStation
   \<and> played_at exampleNow + 40 \<le> secondsOf 1700000050000
   \<and> secondsOf 1700000050000 < played_at exampleNow + 40 + duration exampleNow
   \<and> selectTrack exampleContext exampleNow (secondsOf 1700000050000) = (exampleNow, False)
   \<and> updateNowPlayingInfo (Some exampleContext) 1700000050000 1700000050001 examplePlayer
       = showTrack exampleNow exampleStation 1700000050001 examplePlayer"
  using now_playing_window_selects_now_playing
    [of exampleContext exampleNow exampleStation 1700000050000 1700000050001 examplePlayer]
  by (simp add: exampleContext_def exampleNow_def secondsOf_def)

text \<open>
  C2.  When the clock is before the lag-adjusted start of \<open>now_playing\<close>: with a non-empty
  history whose head has not ended (\<open>currentTime \<le> head.played_at + 40 + head.duration\<close>)
  the head is selected; when the head has ended, \<open>now_playing\<close> is selected; with an empty
  or absent history \<open>now_playing\<close> is selected and the timing mismatch is logged.
\<close>

theorem before_now_start_selects_history_or_now_playing:
  assumes "now_playing d = Some np" and "station d = Some stn"
    and "secondsOf ms < played_at np + 40"
  shows "(song_history d = Some (h # hs) \<and> secondsOf ms \<le> played_at h + 40 + duration h \<longrightarrow>
            selectTrack d np (secondsOf ms) = (h, False) \<and>
            updateNowPlayingInfo (Some d) ms ms' st = showTrack h stn ms' st)
       \<and> (song_history d = Some (h # hs) \<and> secondsOf ms > played_at h + 40 + duration h \<longrightarrow>
            selectTrack d np (secondsOf ms) = (np, False) \<and>
            updateNowPlayingInfo (Some d) ms ms' st = showTrack np stn ms' st)
       \<and> (song_history d = Some [] \<or> song_history d = None \<longrightarrow>
            selectTrack d np (secondsOf ms) = (np, True) \<and>
            updateNowPlayingInfo (Some d) ms ms' st =
              showTrack np stn ms' (st\<lparr>consoleErrors := consoleErrors st @ [timingMismatchMessage]\<rparr>))"
proof -
  note upd = updateNowPlayingInfo_present [OF assms(1,2), of ms ms' st]
  have a: "selectTrack d np (secondsOf ms) = (h, False)"
    if "song_history d = Some (h # hs)" "secondsOf ms \<le> played_at h + 40 + duration h"
    using that assms(3) by (simp add: selectTrack_def lastHistory_def TIME_LAG_BUFFER_def)
  have b: "selectTrack d np (secondsOf ms) = (np, False)"
    if "song_history d = Some (h # hs)" "secondsOf ms > played_at h + 40 + duration h"
    using that assms(3) by (simp add: selectTrack_def lastHistory_def TIME_LAG_BUFFER_def)
  have c: "selectTrack d np (secondsOf ms) = (np, True)"
    if "song_history d = Some [] \<or> song_history d = None"
    using that assms(3) by (auto simp add: selectTrack_def lastHistory_def TIME_LAG_BUFFER_def)
  show ?thesis
    using a b c upd by auto
qed

theorem before_now_start_witness:
  "now_playing exampleContext = Some exampleNow \<and> station exampleContext = Some exampleStation
   \<and> secondsOf 1700000030000 < played_at exampleNow + 40
   \<and> song_history exampleContext = Some [examplePrevious]
   \<and> secondsOf 1700000030000 \<le> played_at examplePrevious + 40 + duration examplePrevious
   \<and> selectTrack exampleContext exampleNow (secondsOf 1700000030000) = (examplePrevious, False)
   \<and> updateNowPlayingInfo (Some exampleContext) 1700000030000 1700000030001 examplePlayer
       = showTrack examplePrevious exampleStation 1700000030001 examplePlayer"
  using before_now_start_selects_history_or_now_playing
    [of exampleContext exampleNow exampleStation 1700000030000 examplePrevious "[]"
        1700000030001 examplePlayer]
  by (simp add: exampleContext_def exampleNow_def examplePrevious_def secondsOf_def)

text \<open>
  C3, as amended.  When the clock is at or after the lag-adjusted end of \<open>now_playing\<close> and
  not before its lag-adjusted start (which follows whenever the duration is not negative),
  \<open>playing_next\<close> is selected if present and \<open>now_playing\<close> otherwise.
\<close>

theorem at_or_after_now_end_selects_next_or_now_playing:
  assumes "now_playing d = Some np" and "station d = Some stn"
    and "played_at np + 40 \<le> secondsOf ms"
    and "played_at np + 40 + duration np \<le> secondsOf ms"
  shows "(playing_next d = Some nxt \<longrightarrow>
            selectTrack d np (secondsOf ms) = (nxt, False) \<and>
            updateNowPlayingInfo (Some d) ms ms' st = showTrack nxt stn ms' st)
       \<and> (playing_next d = None \<longrightarrow>
            selectTrack d np (secondsOf ms) = (np, False) \<and>
            updateNowPlayingInfo (Some d) ms ms' st = showTrack np stn ms' st)"
proof -
  note upd = updateNowPlayingInfo_present [OF assms(1,2), of ms ms' st]
  have a: "selectTrack d np (secondsOf ms) = (nxt, False)" if "playing_next d = Some nxt"
    using that assms(3,4) by (simp add: selectTrack_def TIME_LAG_BUFFER_def)
  have b: "selectTrack d np (secondsOf ms) = (np, False)" if "playing_next d = None"
    using that assms(3,4) by (simp add: selectTrack_def TIME_LAG_BUFFER_def)
  show ?thesis
    using a b upd by auto
qed

theorem at_or_after_now_end_witness:
  "now_playing exampleContext = Some exampleNow \<and> station exampleContext = Some exampleStation
   \<and> played_at exampleNow + 40 \<le> secondsOf 1700000220000
   \<and> played_at exampleNow + 40 + duration exampleNow \<le> secondsOf 1700000220000
   \<and> playing_next exampleContext = Some exampleNext
   \<and> selectTrack exampleContext exampleNow (secondsOf 1700000220000) = (exampleNext, False)
   \<and> updateNowPlayingInfo (Some exampleContext) 1700000220000 1700000220001 examplePlayer
       = showTrack exampleNext exampleStation 1700000220001 examplePlayer"
  using at_or_after_now_end_selects_next_or_now_playing
    [of exampleContext exampleNow exampleStation 1700000220000 exampleNext
        1700000220001 examplePlayer]
  by (simp add: exampleContext_def exampleNow_def secondsOf_def)

text \<open>
  C3 as stated fails for a negative duration: the clock is then past the adjusted end and
  still before the adjusted start, the first branch is taken, and with an empty history
  \<open>now_playing\<close> is selected although \<open>playing_next\<close> is present.
\<close>

theorem at_or_after_now_end_counterexample:
  "now_playing negativeDurationContext = Some negativeDurationNow
   \<and> playing_next negativeDurationContext = Some exampleNext
   \<and> played_at negativeDurationNow + 40 + duration negativeDurationNow \<le> secondsOf 1700000000000
   \<and> fst (selectTrack negativeDurationContext negativeDurationNow (secondsOf 1700000000000))
       = negativeDurationNow
   \<and> negativeDurationNow \<noteq> exampleNext"
  by (simp add: negativeDurationContext_def negativeDurationNow_def exampleNext_def secondsOf_def
      selectTrack_def lastHistory_def TIME_LAG_BUFFER_def)

section \<open>Baseline of the progress timer\<close>

text \<open>
  C4.  Whenever \<open>updateNowPlayingInfo\<close> reaches \<open>startProgressTimer\<close>, the baseline it stores
  is the selected track's \<open>played_at + 40\<close> and \<open>duration\<close>.  For a context whose
  \<open>now_playing\<close> has \<open>played_at = T\<close>, \<open>duration = 180\<close> and a \<open>song\<close> (with artwork, or
  with a named station), read at \<open>T + 50\<close> seconds (the timer reading its clock less than
  a second later), \<open>now_playing\<close> is selected, the elapsed time is 10 seconds and the page
  shows \<open>0:10\<close>.
\<close>

theorem baseline_of_selected_track:
  assumes "now_playing d = Some np" and "station d = Some stn"
  shows "(updateNowPlayingInfo (Some d) ms ms' st = Inr st' \<longrightarrow>
            currentStartTime st' = played_at (fst (selectTrack d np (secondsOf ms))) + 40 \<and>
            currentDuration st' = duration (fst (selectTrack d np (secondsOf ms))))
       \<and> (played_at np = of_int T \<and> duration np = 180 \<and> song np = Some sg \<and>
          (truthy (art sg) \<or> name stn \<noteq> None) \<and>
          ms = (T + 50) * 1000 \<and> ms \<le> ms' \<and> ms' < ms + 1000 \<longrightarrow>
            (\<exists>st1. updateNowPlayingInfo (Some d) ms ms' st = Inr st1 \<and>
               fst (selectTrack d np (secondsOf ms)) = np \<and>
               currentStartTime st1 = of_int T + 40 \<and> currentDuration st1 = 180 \<and>
               elapsedApiTime ms' st1 = 10 \<and> elapsedTimeEl st1 = ascii ''0:10''))"
proof (intro conjI impI)
  note upd = updateNowPlayingInfo_present [OF assms, of ms ms' st]
  {
    assume "updateNowPlayingInfo (Some d) ms ms' st = Inr st'"
    then have "showTrack (fst (selectTrack d np (secondsOf ms))) stn ms'
       (if snd (selectTrack d np (secondsOf ms))
        then st\<lparr>consoleErrors := consoleErrors st @ [timingMismatchMessage]\<rparr> else st) = Inr st'"
      using upd by simp
    from showTrack_baseline [OF this]
    show "currentStartTime st' = played_at (fst (selectTrack d np (secondsOf ms))) + 40"
      and "currentDuration st' = duration (fst (selectTrack d np (secondsOf ms)))"
      by simp_all
  }
  assume sc: "played_at np = of_int T \<and> duration np = 180 \<and> song np = Some sg \<and>
          (truthy (art sg) \<or> name stn \<noteq> None) \<and>
          ms = (T + 50) * 1000 \<and> ms \<le> ms' \<and> ms' < ms + 1000"
  have t: "secondsOf ms = of_int T + 50"
    using sc by (simp add: secondsOf_def)
  have sel: "selectTrack d np (secondsOf ms) = (np, False)"
    using sc t by (simp add: selectTrack_def TIME_LAG_BUFFER_def)
  obtain st1 where st1: "showTrack np stn ms' st = Inr st1"
    using showTrack_returns [of np sg stn ms' st] sc by blast
  have lo: "of_int T + 50 \<le> secondsOf ms'" and hi: "secondsOf ms' < of_int T + 51"
    using sc by (simp_all add: secondsOf_def field_simps)
  have fl: "\<lfloor>secondsOf ms' - (played_at np + 40)\<rfloor> = 10"
    using lo hi sc by (simp add: floor_eq_iff)
  have "elapsedApiTime ms' st1 = 10 \<and> elapsedTimeEl st1 = ascii ''0:10''"
    using showTrack_elapsed [OF st1] fl sc formatTime_10 by simp
  moreover have "currentStartTime st1 = of_int T + 40 \<and> currentDuration st1 = 180"
    using showTrack_baseline [OF st1] sc by simp
  moreover have "updateNowPlayingInfo (Some d) ms ms' st = Inr st1"
    using upd sel st1 by simp
  ultimately show "\<exists>st1. updateNowPlayingInfo (Some d) ms ms' st = Inr st1 \<and>
               fst (selectTrack d np (secondsOf ms)) = np \<and>
               currentStartTime st1 = of_int T + 40 \<and> currentDuration st1 = 180 \<and>
               elapsedApiTime ms' st1 = 10 \<and> elapsedTimeEl st1 = ascii ''0:10''"
    using sel by auto
qed

theorem baseline_of_selected_track_witness:
  "now_playing exampleContext = Some exampleNow \<and> station exampleContext = Some exampleStation
   \<and> played_at exampleNow = of_int 1700000000 \<and> duration exampleNow = 180
   \<and> song exampleNow = Some (exampleSong (ascii ''Now''))
   \<and> name exampleStation \<noteq> None
   \<and> (1700000050000 :: int) = (1700000000 + 50) * 1000
   \<and> (1700000050000 :: int) \<le> 1700000050300 \<and> (1700000050300 :: int) < 1700000050000 + 1000
   \<and> (\<exists>st1. updateNowPlayingInfo (Some exampleContext) 1700000050000 1700000050300 examplePlayer
              = Inr st1 \<and>
            fst (selectTrack exampleContext exampleNow (secondsOf 1700000050000)) = exampleNow \<and>
            currentStartTime st1 = 1700000040 \<and> currentDuration st1 = 180 \<and>
            elapsedApiTime 1700000050300 st1 = 10 \<and> elapsedTimeEl st1 = ascii ''0:10'')"
  using baseline_of_selected_track
    [of exampleContext exampleNow exampleStation 1700000050000 1700000050300 examplePlayer
        examplePlayer 1700000000 "exampleSong (ascii ''Now'')"]
  by (simp add: exampleContext_def exampleNow_def exampleStation_def)

section \<open>Progress percentage\<close>

text \<open>
  C5, as amended.  The percentage written by \<open>updateProgress\<close> never exceeds 100, and it is
  not negative when the elapsed time is not negative; with a positive duration it is
  \<open>min(currentTime, duration) / duration * 100\<close>, which is negative for a negative elapsed
  time.
\<close>

theorem progress_percentage_bounds:
  "progressBarWidth (updateProgress t st) \<le> 100
   \<and> (0 \<le> t \<longrightarrow> 0 \<le> progressBarWidth (updateProgress t st))
   \<and> (0 < currentDuration st \<longrightarrow>
        progressBarWidth (updateProgress t st) = progressPercentage t (currentDuration st) \<and>
        progressPercentage t (currentDuration st) \<le> 100 \<and>
        (0 \<le> t \<longrightarrow> 0 \<le> progressPercentage t (currentDuration st)) \<and>
        (t < 0 \<longrightarrow> progressPercentage t (currentDuration st) < 0))"
proof -
  have up: "progressPercentage t dur \<le> 100" if "0 < dur" for dur
    using that by (simp add: progressPercentage_def pos_divide_le_eq)
  have lo: "0 \<le> progressPercentage t dur" if "0 < dur" "0 \<le> t" for dur
    using that by (simp add: progressPercentage_def)
  have neg: "progressPercentage t dur < 0" if "0 < dur" "t < 0" for dur
    using that by (simp add: progressPercentage_def divide_neg_pos mult_less_0_iff)
  show ?thesis
    using up lo neg by (auto simp add: updateProgress_def Let_def)
qed

theorem progress_percentage_bounds_witness:
  "(0 :: real) \<le> 200 \<and> 0 < currentDuration (examplePlayer\<lparr>currentDuration := 180\<rparr>)
   \<and> progressBarWidth (updateProgress 200 (examplePlayer\<lparr>currentDuration := 180\<rparr>)) = 100
   \<and> progressPercentage 200 180 = 100"
  using progress_percentage_bounds [of 200 "examplePlayer\<lparr>currentDuration := 180\<rparr>"]
  by (simp add: examplePlayer_def updateProgress_def progressPercentage_def)

text \<open>C5 as stated fails at an elapsed time of \<open>-9\<close> seconds and a duration of 180: the
  percentage is \<open>-5\<close>.\<close>

theorem progress_percentage_counterexample:
  "(0 :: real) < 180
   \<and> progressPercentage (- 9) 180 = - 5
   \<and> progressBarWidth (updateProgress (- 9) (examplePlayer\<lparr>currentDuration := 180\<rparr>)) = - 5
   \<and> \<not> (0 \<le> progressPercentage (- 9) 180 \<and> progressPercentage (- 9) 180 \<le> 100)"
  by (simp add: examplePlayer_def updateProgress_def progressPercentage_def)

section \<open>Waveform history\<close>

lemma stopPeakSampling_history [simp]:
  "waveformHistory (stopPeakSampling st) = waveformHistory st"
  by (simp add: stopPeakSampling_def clearInterval_def split: option.splits)

lemma peakSamplingTick_length:
  "length (waveformHistory (peakSamplingTick cv env st)) \<le>
     max (length (waveformHistory st)) (max 1 (TOTAL_BARS cv))"
  by (auto simp add: peakSamplingTick_def Let_def split: option.splits)

lemma runTicks_length:
  assumes "length (waveformHistory st) \<le> max 1 (TOTAL_BARS cv)"
  shows "length (waveformHistory (runTicks cv envs st)) \<le> max 1 (TOTAL_BARS cv)"
  using assms
proof (induction envs arbitrary: st)
  case Nil
  then show ?case by simp
next
  case (Cons env envs)
  show ?case
  proof (cases "peakSamplingIntervalId st")
    case None
    then show ?thesis using Cons.prems by simp
  next
    case (Some h)
    have "length (waveformHistory (peakSamplingTick cv env st)) \<le> max 1 (TOTAL_BARS cv)"
      using peakSamplingTick_length [of cv env st] Cons.prems by simp
    from Cons.IH [OF this] show ?thesis
      using Some by simp
  qed
qed

lemma startPeakSampling_history:
  "waveformHistory (startPeakSampling cv st) = replicate (TOTAL_BARS cv) 0"
  by (simp add: startPeakSampling_def setInterval_def clearInterval_def Let_def
      split: option.splits)

lemmas sampler_defs = startPeakSampling_def peakSamplingTick_def setInterval_def
  clearInterval_def maxAmplitude_def TOTAL_BARS_def STEP_def BAR_WIDTH_def BAR_SPACING_def

text \<open>
  C6, as amended.  After the initial fill and any number of sampling ticks the history is
  never longer than \<open>max(1, TOTAL_BARS)\<close>; so it never exceeds \<open>TOTAL_BARS\<close> when the
  canvas is at least 3 pixels wide.
\<close>

theorem waveform_history_bounded:
  "length (waveformHistory (runTicks cv envs (startPeakSampling cv st))) \<le> max 1 (TOTAL_BARS cv)
   \<and> (3 \<le> VIS_W cv \<longrightarrow>
        length (waveformHistory (runTicks cv envs (startPeakSampling cv st))) \<le> TOTAL_BARS cv)"
proof -
  have "length (waveformHistory (startPeakSampling cv st)) \<le> max 1 (TOTAL_BARS cv)"
    by (simp add: startPeakSampling_history)
  from runTicks_length [OF this]
  have b: "length (waveformHistory (runTicks cv envs (startPeakSampling cv st)))
             \<le> max 1 (TOTAL_BARS cv)" .
  have "1 \<le> TOTAL_BARS cv" if "3 \<le> VIS_W cv"
    using that by (simp add: TOTAL_BARS_def STEP_def BAR_WIDTH_def BAR_SPACING_def
        Suc_le_eq div_greater_zero_iff)
  then show ?thesis
    using b by auto
qed

theorem waveform_history_bounded_witness:
  "3 \<le> VIS_W exampleCanvas
   \<and> TOTAL_BARS exampleCanvas = 2
   \<and> waveformHistory (runTicks exampleCanvas [exampleEnv, exampleEnv, exampleEnv]
        (startPeakSampling exampleCanvas examplePlayer)) = [45 / 2, 45 / 2]
   \<and> length (waveformHistory (runTicks exampleCanvas [exampleEnv, exampleEnv, exampleEnv]
        (startPeakSampling exampleCanvas examplePlayer))) \<le> TOTAL_BARS exampleCanvas"
  using waveform_history_bounded
    [of exampleCanvas "[exampleEnv, exampleEnv, exampleEnv]" examplePlayer]
  by (simp add: exampleCanvas_def exampleEnv_def examplePlayer_def sampler_defs)

text \<open>C6 as stated fails on a canvas narrower than 3 pixels: \<open>TOTAL_BARS\<close> is 0, the shift
  finds nothing to remove, and after one tick the history holds one bar.\<close>

theorem waveform_history_counterexample:
  "TOTAL_BARS narrowCanvas = 0
   \<and> length (waveformHistory (runTicks narrowCanvas [exampleEnv]
        (startPeakSampling narrowCanvas examplePlayer))) = 1
   \<and> \<not> length (waveformHistory (runTicks narrowCanvas [exampleEnv]
        (startPeakSampling narrowCanvas examplePlayer))) \<le> TOTAL_BARS narrowCanvas"
  by (simp add: narrowCanvas_def exampleEnv_def examplePlayer_def sampler_defs)

section \<open>Malformed contexts\<close>

lemma stopProgressTimer_fields:
  "intervalId (stopProgressTimer st) = None
   \<and> activeIntervals (stopProgressTimer st) = activeIntervals st - set_option (intervalId st)
   \<and> nextHandle (stopProgressTimer st) = nextHandle st
   \<and> mediaSession (stopProgressTimer st) = mediaSession st
   \<and> songTitle (stopProgressTimer st) = songTitle st
   \<and> artistName (stopProgressTimer st) = artistName st
   \<and> stationNameEl (stopProgressTimer st) = stationNameEl st
   \<and> albumArt_src (stopProgressTimer st) = albumArt_src st
   \<and> currentStartTime (stopProgressTimer st) = currentStartTime st
   \<and> currentDuration (stopProgressTimer st) = currentDuration st"
  by (simp add: stopProgressTimer_def clearInterval_def split: option.splits)

lemma clearMediaSession_fields:
  "intervalId (clearMediaSession st) = intervalId st
   \<and> activeIntervals (clearMediaSession st) = activeIntervals st
   \<and> nextHandle (clearMediaSession st) = nextHandle st
   \<and> songTitle (clearMediaSession st) = songTitle st
   \<and> artistName (clearMediaSession st) = artistName st
   \<and> stationNameEl (clearMediaSession st) = stationNameEl st
   \<and> albumArt_src (clearMediaSession st) = albumArt_src st
   \<and> currentStartTime (clearMediaSession st) = currentStartTime st
   \<and> currentDuration (clearMediaSession st) = currentDuration st
   \<and> mediaSession (clearMediaSession st) =
        map_option (\<lambda>m. m\<lparr>metadata := None, playHandler := False, pauseHandler := False\<rparr>)
          (mediaSession st)"
  by (simp add: clearMediaSession_def split: option.splits)

lemma updateNowPlayingInfo_malformed:
  assumes "data = None \<or> (\<exists>d. data = Some d \<and> (now_playing d = None \<or> station d = None))"
  shows "updateNowPlayingInfo data ms ms' st = Inr (fallbackDisplay data st)"
  using assms by (auto simp add: updateNowPlayingInfo_def split: option.splits)

text \<open>
  C7.  For a null context, or one without \<open>now_playing\<close> or without \<open>station\<close>,
  \<open>updateNowPlayingInfo\<close> returns normally: it writes the placeholder title and artist, the
  station name or its default, and the placeholder artwork; the progress timer is stopped
  and no timer is started (no new handle is taken, the baseline is untouched); the media
  session, when the browser has one, loses its metadata and its play and pause handlers.
\<close>

theorem malformed_context_shows_placeholder:
  assumes "data = None \<or> (\<exists>d. data = Some d \<and> (now_playing d = None \<or> station d = None))"
  shows "\<exists>st'. updateNowPlayingInfo data ms ms' st = Inr st'
     \<and> songTitle st' = noInfoText
     \<and> artistName st' = selectStationText
     \<and> stationNameEl st' = orElse (stationNameOf data) (ascii ''Beeptunes Radio'')
     \<and> albumArt_src st' = placeholdUrl @ replaceSpaces (orElse (stationNameOf data) radioText)
     \<and> intervalId st' = None
     \<and> activeIntervals st' = activeIntervals st - set_option (intervalId st)
     \<and> nextHandle st' = nextHandle st
     \<and> currentStartTime st' = currentStartTime st
     \<and> currentDuration st' = currentDuration st
     \<and> mediaSession st' =
          map_option (\<lambda>m. m\<lparr>metadata := None, playHandler := False, pauseHandler := False\<rparr>)
            (mediaSession st)"
proof -
  have "updateNowPlayingInfo data ms ms' st = Inr (fallbackDisplay data st)"
    using assms by (rule updateNowPlayingInfo_malformed)
  then show ?thesis
    by (simp add: fallbackDisplay_def clearMediaSession_fields stopProgressTimer_fields)
qed

theorem malformed_context_witness:
  "now_playing stationOnlyContext = None
   \<and> (\<exists>st'. updateNowPlayingInfo (Some stationOnlyContext) 1700000050000 1700000050001
               examplePlayer = Inr st'
          \<and> songTitle st' = noInfoText
          \<and> artistName st' = selectStationText
          \<and> stationNameEl st' = ascii ''Owj''
          \<and> albumArt_src st' = placeholdUrl @ ascii ''Owj''
          \<and> intervalId st' = None
          \<and> activeIntervals st' = {2}
          \<and> nextHandle st' = 3
          \<and> mediaSession st' = Some emptySession)"
  using malformed_context_shows_placeholder
    [of "Some stationOnlyContext" 1700000050000 1700000050001 examplePlayer]
  by (auto simp add: stationOnlyContext_def examplePlayer_def exampleStation_def
      emptySession_def stationNameOf_def orElse_def replaceSpaces_def isWhiteSpace_def
      radioText_def ascii_def)

section \<open>Repeating the reconciliation\<close>

lemma fallbackDisplay_again:
  "fallbackDisplay data (fallbackDisplay data st) = fallbackDisplay data st"
  by (cases "mediaSession st"; cases "intervalId st")
     (simp_all add: fallbackDisplay_def stopProgressTimer_def clearMediaSession_def
       clearInterval_def)

lemma startProgressTimer_fields:
  "songTitle (startProgressTimer a b ms st) = songTitle st
   \<and> artistName (startProgressTimer a b ms st) = artistName st
   \<and> stationNameEl (startProgressTimer a b ms st) = stationNameEl st
   \<and> albumArt_src (startProgressTimer a b ms st) = albumArt_src st
   \<and> mediaSession (startProgressTimer a b ms st) = mediaSession st
   \<and> currentStartTime (startProgressTimer a b ms st) = a
   \<and> currentDuration (startProgressTimer a b ms st) = b
   \<and> elapsedTimeEl (startProgressTimer a b ms st) =
        elapsedTimeEl (updateProgress (of_int \<lfloor>secondsOf ms - a\<rfloor>) (st\<lparr>currentDuration := b\<rparr>))
   \<and> durationTimeEl (startProgressTimer a b ms st) =
        durationTimeEl (updateProgress (of_int \<lfloor>secondsOf ms - a\<rfloor>) (st\<lparr>currentDuration := b\<rparr>))
   \<and> progressBarWidth (startProgressTimer a b ms st) =
        progressBarWidth (updateProgress (of_int \<lfloor>secondsOf ms - a\<rfloor>) (st\<lparr>currentDuration := b\<rparr>))"
  by (simp add: startProgressTimer_def setInterval_def updateProgress_def clearInterval_def
      elapsedApiTime_def Let_def split: option.splits)

lemma updateProgress_display:
  "elapsedTimeEl (updateProgress t (st\<lparr>currentDuration := b\<rparr>)) =
     elapsedTimeEl (updateProgress t (st'\<lparr>currentDuration := b\<rparr>))
   \<and> durationTimeEl (updateProgress t (st\<lparr>currentDuration := b\<rparr>)) =
     durationTimeEl (updateProgress t (st'\<lparr>currentDuration := b\<rparr>))
   \<and> progressBarWidth (updateProgress t (st\<lparr>currentDuration := b\<rparr>)) =
     progressBarWidth (updateProgress t (st'\<lparr>currentDuration := b\<rparr>))"
  by (simp add: updateProgress_def Let_def)

lemma updateMediaSession_again:
  assumes "updateMediaSession sg stn st = Inr st1" and "mediaSession sta = mediaSession st1"
  shows "\<exists>st2. updateMediaSession sg stn sta = Inr st2 \<and> mediaSession st2 = mediaSession st1
           \<and> songTitle st2 = songTitle sta \<and> artistName st2 = artistName sta
           \<and> stationNameEl st2 = stationNameEl sta \<and> albumArt_src st2 = albumArt_src sta"
  using assms
  by (auto simp add: updateMediaSession_def split: option.splits sum.splits)

lemma updateMediaSession_fields:
  assumes "updateMediaSession sg stn st = Inr st1"
  shows "songTitle st1 = songTitle st \<and> artistName st1 = artistName st
           \<and> stationNameEl st1 = stationNameEl st \<and> albumArt_src st1 = albumArt_src st"
  using assms
  by (auto simp add: updateMediaSession_def split: option.splits sum.splits)

lemma showTrack_again:
  assumes "showTrack tr stn ms st = Inr st1" and "mediaSession sta = mediaSession st1"
  shows "\<exists>st2. showTrack tr stn ms sta = Inr st2
         \<and> songTitle st2 = songTitle st1 \<and> artistName st2 = artistName st1
         \<and> stationNameEl st2 = stationNameEl st1 \<and> albumArt_src st2 = albumArt_src st1
         \<and> elapsedTimeEl st2 = elapsedTimeEl st1 \<and> durationTimeEl st2 = durationTimeEl st1
         \<and> progressBarWidth st2 = progressBarWidth st1
         \<and> currentStartTime st2 = currentStartTime st1
         \<and> currentDuration st2 = currentDuration st1
         \<and> mediaSession st2 = mediaSession st1"
proof -
  obtain sg where sg: "song tr = Some sg"
    using assms(1) by (auto simp add: showTrack_def Let_def split: option.splits)
  obtain artSrc where artSrc: "artOr (art sg)
        (case name stn of None \<Rightarrow> Inl TypeError
         | Some n \<Rightarrow> Inr (placeholdUrl @ replaceSpaces n)) = Inr artSrc"
    using assms(1) sg by (auto simp add: showTrack_def Let_def split: sum.splits)
  define disp where "disp = (\<lambda>s :: player. s\<lparr>
                         songTitle := orElse (title sg) untitledText,
                         artistName := orElse (artist sg) unknownArtistText,
                         albumArt_src := artSrc,
                         stationNameEl := (case name stn of None \<Rightarrow> [] | Some n \<Rightarrow> displayName n)\<rparr>)"
  obtain m1 where m1: "updateMediaSession sg stn (disp st) = Inr m1"
    and st1: "st1 = startProgressTimer (played_at tr + TIME_LAG_BUFFER) (duration tr) ms m1"
    using assms(1) sg artSrc
    by (auto simp add: showTrack_def Let_def disp_def split: sum.splits)
  have ms1: "mediaSession (disp sta) = mediaSession m1"
    using assms(2) st1 by (simp add: disp_def startProgressTimer_fields)
  obtain m2 where m2: "updateMediaSession sg stn (disp sta) = Inr m2"
    and m2f: "mediaSession m2 = mediaSession m1"
      "songTitle m2 = songTitle (disp sta)" "artistName m2 = artistName (disp sta)"
      "stationNameEl m2 = stationNameEl (disp sta)" "albumArt_src m2 = albumArt_src (disp sta)"
    using updateMediaSession_again [OF m1 ms1] by blast
  let ?st2 = "startProgressTimer (played_at tr + TIME_LAG_BUFFER) (duration tr) ms m2"
  have run: "showTrack tr stn ms sta = Inr ?st2"
    using sg artSrc m2 by (simp add: showTrack_def Let_def disp_def)
  have m1f: "songTitle m1 = songTitle (disp st)" "artistName m1 = artistName (disp st)"
      "stationNameEl m1 = stationNameEl (disp st)" "albumArt_src m1 = albumArt_src (disp st)"
    using updateMediaSession_fields [OF m1] by simp_all
  have texts: "songTitle ?st2 = songTitle st1 \<and> artistName ?st2 = artistName st1
         \<and> stationNameEl ?st2 = stationNameEl st1 \<and> albumArt_src ?st2 = albumArt_src st1
         \<and> mediaSession ?st2 = mediaSession st1
         \<and> currentStartTime ?st2 = currentStartTime st1
         \<and> currentDuration ?st2 = currentDuration st1"
    using m1f m2f st1 by (simp add: startProgressTimer_fields disp_def)
  have prog: "elapsedTimeEl ?st2 = elapsedTimeEl st1 \<and> durationTimeEl ?st2 = durationTimeEl st1
         \<and> progressBarWidth ?st2 = progressBarWidth st1"
    using st1 updateProgress_display [where st = m2 and st' = m1 and b = "duration tr"]
    by (simp add: startProgressTimer_fields)
  show ?thesis
    using run texts prog by simp
qed

text \<open>
  C8, as amended.  Calling \<open>updateNowPlayingInfo\<close> again with the same context and the same
  clock values, on the state the first call left, succeeds and leaves every displayed text,
  the progress display, the baseline and the media session as they were.  For two clock
  values inside the window of the track selected at the first one, the selection is the
  same provided both lie on the same side of the lag-adjusted start and of the lag-adjusted
  end of \<open>now_playing\<close>.
\<close>

theorem selection_is_repeatable:
  "(updateNowPlayingInfo data ms ms' st = Inr st1 \<longrightarrow>
      (\<exists>st2. updateNowPlayingInfo data ms ms' st1 = Inr st2
         \<and> songTitle st2 = songTitle st1 \<and> artistName st2 = artistName st1
         \<and> stationNameEl st2 = stationNameEl st1 \<and> albumArt_src st2 = albumArt_src st1
         \<and> elapsedTimeEl st2 = elapsedTimeEl st1 \<and> durationTimeEl st2 = durationTimeEl st1
         \<and> progressBarWidth st2 = progressBarWidth st1
         \<and> currentStartTime st2 = currentStartTime st1
         \<and> currentDuration st2 = currentDuration st1
         \<and> mediaSession st2 = mediaSession st1))
   \<and> (fst (selectTrack d np t1) = sel
        \<and> played_at sel + 40 \<le> t1 \<and> t1 < played_at sel + 40 + duration sel
        \<and> played_at sel + 40 \<le> t2 \<and> t2 < played_at sel + 40 + duration sel
        \<and> (t1 < played_at np + 40 \<longleftrightarrow> t2 < played_at np + 40)
        \<and> (played_at np + 40 + duration np \<le> t1 \<longleftrightarrow> played_at np + 40 + duration np \<le> t2)
      \<longrightarrow> selectTrack d np t2 = selectTrack d np t1)"
proof (intro conjI impI)
  assume first: "updateNowPlayingInfo data ms ms' st = Inr st1"
  show "\<exists>st2. updateNowPlayingInfo data ms ms' st1 = Inr st2
         \<and> songTitle st2 = songTitle st1 \<and> artistName st2 = artistName st1
         \<and> stationNameEl st2 = stationNameEl st1 \<and> albumArt_src st2 = albumArt_src st1
         \<and> elapsedTimeEl st2 = elapsedTimeEl st1 \<and> durationTimeEl st2 = durationTimeEl st1
         \<and> progressBarWidth st2 = progressBarWidth st1
         \<and> currentStartTime st2 = currentStartTime st1
         \<and> currentDuration st2 = currentDuration st1
         \<and> mediaSession st2 = mediaSession st1"
  proof (cases "\<exists>d np stn. data = Some d \<and> now_playing d = Some np \<and> station d = Some stn")
    case True
    then obtain d np stn where d: "data = Some d" "now_playing d = Some np" "station d = Some stn"
      by blast
    note upd = updateNowPlayingInfo_present [OF d(2,3), of ms ms']
    let ?tr = "fst (selectTrack d np (secondsOf ms))"
    obtain sta where sta: "showTrack ?tr stn ms' sta = Inr st1"
      using first upd [of st] d(1) by metis
    let ?stb = "if snd (selectTrack d np (secondsOf ms))
        then st1\<lparr>consoleErrors := consoleErrors st1 @ [timingMismatchMessage]\<rparr> else st1"
    have "mediaSession ?stb = mediaSession st1"
      by simp
    from showTrack_again [OF sta this] show ?thesis
      using upd [of st1] d(1) by simp
  next
    case False
    then have mal: "data = None \<or> (\<exists>d. data = Some d \<and> (now_playing d = None \<or> station d = None))"
      by (cases data) auto
    have "st1 = fallbackDisplay data st"
      using first updateNowPlayingInfo_malformed [OF mal, of ms ms' st] by simp
    then have "updateNowPlayingInfo data ms ms' st1 = Inr st1"
      using updateNowPlayingInfo_malformed [OF mal, of ms ms' st1] fallbackDisplay_again by simp
    then show ?thesis by simp
  qed
next
  assume a: "fst (selectTrack d np t1) = sel
        \<and> played_at sel + 40 \<le> t1 \<and> t1 < played_at sel + 40 + duration sel
        \<and> played_at sel + 40 \<le> t2 \<and> t2 < played_at sel + 40 + duration sel
        \<and> (t1 < played_at np + 40 \<longleftrightarrow> t2 < played_at np + 40)
        \<and> (played_at np + 40 + duration np \<le> t1 \<longleftrightarrow> played_at np + 40 + duration np \<le> t2)"
  then show "selectTrack d np t2 = selectTrack d np t1"
    by (auto simp add: selectTrack_def TIME_LAG_BUFFER_def Let_def split: option.splits if_splits)
qed

lemmas example_defs = exampleContext_def exampleNow_def examplePrevious_def exampleNext_def
  exampleStation_def exampleSong_def examplePlayer_def emptySession_def

lemmas display_defs = updateNowPlayingInfo_def selectTrack_def lastHistory_def showTrack_def
  updateMediaSession_def mediaArtworkUrl_def artOr_def orElse_def startProgressTimer_def
  setInterval_def clearInterval_def updateProgress_def progressPercentage_def
  elapsedApiTime_def secondsOf_def TIME_LAG_BUFFER_def displayName_def STATION_NAME_MAP_def
  replaceSpaces_def isWhiteSpace_def formatTime_def js_rem_def js_trunc_def showInt_def
  showNat.simps padStart2_def ascii_def placeholdUrl_def

lemma exampleContext_shown:
  "updateNowPlayingInfo (Some exampleContext) 1700000050000 1700000050300 examplePlayer
     = Inr exampleShown"
  by (simp add: example_defs exampleShown_def display_defs insert_commute)

theorem selection_is_repeatable_witness:
  "updateNowPlayingInfo (Some exampleContext) 1700000050000 1700000050300 examplePlayer
     = Inr exampleShown
   \<and> (\<exists>st2. updateNowPlayingInfo (Some exampleContext) 1700000050000 1700000050300 exampleShown
              = Inr st2
          \<and> songTitle st2 = songTitle exampleShown \<and> artistName st2 = artistName exampleShown
          \<and> stationNameEl st2 = stationNameEl exampleShown
          \<and> albumArt_src st2 = albumArt_src exampleShown
          \<and> elapsedTimeEl st2 = elapsedTimeEl exampleShown
          \<and> durationTimeEl st2 = durationTimeEl exampleShown
          \<and> progressBarWidth st2 = progressBarWidth exampleShown
          \<and> currentStartTime st2 = currentStartTime exampleShown
          \<and> currentDuration st2 = currentDuration exampleShown
          \<and> mediaSession st2 = mediaSession exampleShown)
   \<and> fst (selectTrack exampleContext exampleNow 1700000050) = exampleNow
   \<and> played_at exampleNow + 40 \<le> 1700000050
   \<and> 1700000050 < played_at exampleNow + 40 + duration exampleNow
   \<and> played_at exampleNow + 40 \<le> 1700000100
   \<and> 1700000100 < played_at exampleNow + 40 + duration exampleNow
   \<and> selectTrack exampleContext exampleNow 1700000100
       = selectTrack exampleContext exampleNow 1700000050"
proof -
  have sel: "fst (selectTrack exampleContext exampleNow 1700000050) = exampleNow"
    by (simp add: exampleNow_def selectTrack_def TIME_LAG_BUFFER_def)
  have win: "played_at exampleNow + 40 \<le> 1700000050
     \<and> 1700000050 < played_at exampleNow + 40 + duration exampleNow
     \<and> played_at exampleNow + 40 \<le> 1700000100
     \<and> 1700000100 < played_at exampleNow + 40 + duration exampleNow"
    by (simp add: exampleNow_def)
  show ?thesis
    using selection_is_repeatable
      [of "Some exampleContext" 1700000050000 1700000050300 examplePlayer exampleShown
          exampleContext exampleNow 1700000050 exampleNow 1700000100]
      exampleContext_shown sel win
    by simp
qed

text \<open>
  C8 as stated fails when the windows of adjacent tracks overlap: at 1700000030 the history
  head is selected, and at 1700000045, still inside the head's window, \<open>now_playing\<close> is
  selected, because its own window has begun.
\<close>

theorem selection_in_window_counterexample:
  "fst (selectTrack overlapContext exampleNow 1700000030) = overlapPrevious
   \<and> played_at overlapPrevious + 40 \<le> 1700000030
   \<and> 1700000030 < played_at overlapPrevious + 40 + duration overlapPrevious
   \<and> played_at overlapPrevious + 40 \<le> 1700000045
   \<and> 1700000045 < played_at overlapPrevious + 40 + duration overlapPrevious
   \<and> fst (selectTrack overlapContext exampleNow 1700000045) = exampleNow
   \<and> exampleNow \<noteq> overlapPrevious"
  by (simp add: overlapContext_def overlapPrevious_def exampleNow_def selectTrack_def
      lastHistory_def TIME_LAG_BUFFER_def)

section \<open>Station extraction\<close>

lemma toDescriptor_wellFormed:
  assumes "station d = Some s" and "truthy (listen_url s) \<or> mounts s \<noteq> None"
  shows "toDescriptor d = Inr \<lparr>sd_name = map_option displayName (name s),
              sd_originalName = name s, sd_shortcode = shortcode s,
              sd_url = (if truthy (listen_url s) then listen_url s
                        else defaultMountUrl (the (mounts s)))\<rparr>"
proof (cases "truthy (listen_url s)")
  case True
  then show ?thesis
    using assms(1) by (simp add: toDescriptor_def Let_def)
next
  case False
  then obtain ms where "mounts s = Some ms"
    using assms(2) by auto
  then show ?thesis
    using assms(1) False by (simp add: toDescriptor_def Let_def)
qed

lemma toDescriptor_throws_iff:
  "(\<exists>e. toDescriptor d = Inl e) \<longleftrightarrow> \<not> wellFormedEntry d"
  by (auto simp add: wellFormedEntry_def toDescriptor_def Let_def split: option.splits)

lemma mapDescriptors_throws_iff:
  "(\<exists>e. mapDescriptors ds = Inl e) \<longleftrightarrow> (\<exists>d\<in>set ds. \<not> wellFormedEntry d)"
proof (induction ds)
  case Nil
  then show ?case by simp
next
  case (Cons d ds)
  show ?case
  proof (cases "toDescriptor d")
    case (Inl e)
    then have "\<not> wellFormedEntry d"
      using toDescriptor_throws_iff [of d] by auto
    then show ?thesis using Inl by auto
  next
    case (Inr x)
    then have "wellFormedEntry d"
      using toDescriptor_throws_iff [of d] by auto
    then show ?thesis
      using Inr Cons.IH by (auto split: sum.splits)
  qed
qed

lemma extractStations_throws_iff:
  "(\<exists>e. extractStations ds = Inl e) \<longleftrightarrow> (\<exists>d\<in>set ds. \<not> wellFormedEntry d)"
  using mapDescriptors_throws_iff [of ds]
  by (auto simp add: extractStations_def split: sum.splits)

lemma spec_streamUrl_truthy:
  assumes "station d = Some s" and "wellFormedEntry d"
  shows "truthy (spec_streamUrl s) \<longleftrightarrow>
           truthy (if truthy (listen_url s) then listen_url s
                   else defaultMountUrl (the (mounts s)))"
    and "truthy (spec_streamUrl s) \<Longrightarrow>
           spec_streamUrl s = (if truthy (listen_url s) then listen_url s
                               else defaultMountUrl (the (mounts s)))"
  using assms
  by (auto simp add: spec_streamUrl_def defaultMountUrl_def wellFormedEntry_def truthy_def
      split: option.splits)

lemma extractStations_wellFormed:
  assumes "\<forall>d\<in>set ds. wellFormedEntry d"
  shows "extractStations ds = Inr (spec_selectable ds)"
  using assms
proof (induction ds)
  case Nil
  then show ?case
    by (simp add: extractStations_def spec_selectable_def)
next
  case (Cons d ds)
  then have wf: "wellFormedEntry d" and rest: "extractStations ds = Inr (spec_selectable ds)"
    by simp_all
  obtain s where s: "station d = Some s" and ok: "truthy (listen_url s) \<or> mounts s \<noteq> None"
    using wf by (auto simp add: wellFormedEntry_def split: option.splits)
  note td = toDescriptor_wellFormed [OF s ok]
  obtain xs where xs: "mapDescriptors ds = Inr xs"
    and fx: "filter (\<lambda>s. truthy (sd_url s)) xs = spec_selectable ds"
    using rest by (auto simp add: extractStations_def split: sum.splits)
  let ?u = "if truthy (listen_url s) then listen_url s else defaultMountUrl (the (mounts s))"
  have run: "extractStations (d # ds) =
      Inr (filter (\<lambda>s. truthy (sd_url s))
            (\<lparr>sd_name = map_option displayName (name s), sd_originalName = name s,
               sd_shortcode = shortcode s, sd_url = ?u\<rparr> # xs))"
    using td xs by (simp add: extractStations_def)
  show ?case
  proof (cases "truthy ?u")
    case True
    then have "truthy (spec_streamUrl s)" and "spec_streamUrl s = ?u"
      using spec_streamUrl_truthy [OF s wf] by blast+
    then have "spec_selectable (d # ds) =
        \<lparr>sd_name = map_option displayName (name s), sd_originalName = name s,
          sd_shortcode = shortcode s, sd_url = ?u\<rparr> # spec_selectable ds"
      using s by (simp add: spec_selectable_def)
    then show ?thesis
      using run True fx by simp
  next
    case False
    then have "\<not> truthy (spec_streamUrl s)"
      using spec_streamUrl_truthy(1) [OF s wf] by blast
    then have "spec_selectable (d # ds) = spec_selectable ds"
      using s by (simp add: spec_selectable_def)
    then show ?thesis
      using run False fx by simp
  qed
qed

lemma spec_selectable_truthy:
  "y \<in> set (spec_selectable ds) \<Longrightarrow> truthy (sd_url y)"
  by (auto simp add: spec_selectable_def map_filter_def split: option.splits if_splits)

text \<open>
  C9, as amended.  On a payload in which every entry has a \<open>station\<close> and every station
  without a \<open>listen_url\<close> has a \<open>mounts\<close> array, \<open>extractStations\<close> returns exactly the
  selectable set of the specification: \<open>listen_url\<close> is preferred, otherwise the URL of the
  first mount flagged \<open>is_default\<close> is taken, stations with neither are left out, and every
  returned descriptor has a URL.
\<close>

theorem extractStations_selectable:
  assumes "\<forall>d\<in>set allStationsData.
             \<exists>s. station d = Some s \<and> (truthy (listen_url s) \<or> mounts s \<noteq> None)"
  shows "extractStations allStationsData = Inr (spec_selectable allStationsData)
       \<and> (\<forall>y\<in>set (spec_selectable allStationsData). truthy (sd_url y))"
proof -
  have "\<forall>d\<in>set allStationsData. wellFormedEntry d"
    using assms by (auto simp add: wellFormedEntry_def)
  then show ?thesis
    using extractStations_wellFormed spec_selectable_truthy by blast
qed

lemmas payload_defs = examplePayload_def brokenPayload_def contextOf_def mountStation_def
  silentStation_def brokenStation_def exampleContext_def exampleStation_def

lemmas extract_defs = extractStations_def toDescriptor_def defaultMountUrl_def truthy_def
  spec_selectable_def spec_streamUrl_def displayName_def STATION_NAME_MAP_def ascii_def

theorem extractStations_selectable_witness:
  "extractStations examplePayload =
     Inr [\<lparr>sd_name = Some [1575, 1608, 1580], sd_originalName = Some (ascii ''Owj''),
           sd_shortcode = ascii ''owj'', sd_url = Some (ascii ''https://radio.example/owj'')\<rparr>,
          \<lparr>sd_name = Some [1607, 1575, 1585, 1605, 1608, 1606, 1740],
           sd_originalName = Some (ascii ''Harmony''), sd_shortcode = ascii ''harmony'',
           sd_url = Some (ascii ''https://radio.example/b.mp3'')\<rparr>]
   \<and> spec_selectable examplePayload =
     [\<lparr>sd_name = Some [1575, 1608, 1580], sd_originalName = Some (ascii ''Owj''),
       sd_shortcode = ascii ''owj'', sd_url = Some (ascii ''https://radio.example/owj'')\<rparr>,
      \<lparr>sd_name = Some [1607, 1575, 1585, 1605, 1608, 1606, 1740],
       sd_originalName = Some (ascii ''Harmony''), sd_shortcode = ascii ''harmony'',
       sd_url = Some (ascii ''https://radio.example/b.mp3'')\<rparr>]"
  using extractStations_selectable [of examplePayload]
  by (simp add: payload_defs extract_defs)

text \<open>C9 as stated fails on a payload with a station that has neither \<open>listen_url\<close> nor
  \<open>mounts\<close>: the call throws and returns no set at all.\<close>

theorem extractStations_selectable_counterexample:
  "station (contextOf brokenStation) = Some brokenStation
   \<and> listen_url brokenStation = None \<and> mounts brokenStation = None
   \<and> extractStations brokenPayload = Inl TypeError"
  by (simp add: payload_defs extract_defs)

text \<open>
  C10.  \<open>extractStations\<close> throws on every payload that holds a station with neither
  \<open>listen_url\<close> nor \<open>mounts\<close>; and on a payload whose entries all have a \<open>station\<close>, it
  returns exactly when every station without a \<open>listen_url\<close> has a \<open>mounts\<close> array.
\<close>

theorem extractStations_not_total:
  "extractStations
      (pre @ [\<lparr>station = Some \<lparr>name = n, shortcode = c, listen_url = None, mounts = None\<rparr>,
               now_playing = np, song_history = h, playing_next = nx\<rparr>] @ post) = Inl TypeError
   \<and> ((\<forall>d\<in>set allStationsData. station d \<noteq> None) \<longrightarrow>
        ((\<exists>ys. extractStations allStationsData = Inr ys) \<longleftrightarrow>
         (\<forall>d\<in>set allStationsData. \<forall>s. station d = Some s \<and> \<not> truthy (listen_url s)
              \<longrightarrow> mounts s \<noteq> None)))"
proof
  let ?bad = "\<lparr>station = Some \<lparr>name = n, shortcode = c, listen_url = None, mounts = None\<rparr>,
               now_playing = np, song_history = h, playing_next = nx\<rparr>"
  have "\<not> wellFormedEntry ?bad"
    by (simp add: wellFormedEntry_def truthy_def)
  then have "\<exists>e. extractStations (pre @ [?bad] @ post) = Inl e"
    using extractStations_throws_iff [of "pre @ [?bad] @ post"] by auto
  then show "extractStations (pre @ [?bad] @ post) = Inl TypeError"
    by (metis js_error.exhaust)
next
  show "(\<forall>d\<in>set allStationsData. station d \<noteq> None) \<longrightarrow>
        ((\<exists>ys. extractStations allStationsData = Inr ys) \<longleftrightarrow>
         (\<forall>d\<in>set allStationsData. \<forall>s. station d = Some s \<and> \<not> truthy (listen_url s)
              \<longrightarrow> mounts s \<noteq> None))"
  proof
    assume st: "\<forall>d\<in>set allStationsData. station d \<noteq> None"
    have "(\<exists>ys. extractStations allStationsData = Inr ys) \<longleftrightarrow>
            \<not> (\<exists>e. extractStations allStationsData = Inl e)"
      by (cases "extractStations allStationsData") auto
    also have "\<dots> \<longleftrightarrow> (\<forall>d\<in>set allStationsData. wellFormedEntry d)"
      using extractStations_throws_iff [of allStationsData] by auto
    also have "\<dots> \<longleftrightarrow> (\<forall>d\<in>set allStationsData. \<forall>s. station d = Some s \<and> \<not> truthy (listen_url s)
              \<longrightarrow> mounts s \<noteq> None)"
      using st by (auto simp add: wellFormedEntry_def split: option.splits)
    finally show "(\<exists>ys. extractStations allStationsData = Inr ys) \<longleftrightarrow>
         (\<forall>d\<in>set allStationsData. \<forall>s. station d = Some s \<and> \<not> truthy (listen_url s)
              \<longrightarrow> mounts s \<noteq> None)" .
  qed
qed

theorem extractStations_not_total_witness:
  "extractStations ([exampleContext] @ [contextOf brokenStation] @ []) = Inl TypeError
   \<and> station exampleContext \<noteq> None \<and> station (contextOf mountStation) \<noteq> None
   \<and> station (contextOf silentStation) \<noteq> None
   \<and> mounts mountStation \<noteq> None \<and> mounts silentStation \<noteq> None
   \<and> truthy (listen_url exampleStation)
   \<and> (\<exists>ys. extractStations examplePayload = Inr ys)"
  using extractStations_not_total
    [of "[exampleContext]" "name brokenStation" "shortcode brokenStation" "Some exampleNow"
        "Some []" None "[]" examplePayload]
  by (simp add: payload_defs truthy_def ascii_def)

end
